theory Spec2Isabelle
  imports Main
begin

section \<open>Library types the header builds on\<close>

text \<open>
  \<^verbatim>\<open>boost::process::v2::native_exit_code_type\<close> is the raw status the operating
  system reports for a child (\<^verbatim>\<open>int\<close> on POSIX, \<^verbatim>\<open>unsigned long\<close> on Windows).
\<close>

type_synonym native_exit_code_type = int

text \<open>
  \<^verbatim>\<open>boost::system::error_code\<close>: a value and the category that interprets it. Its
  conversion to \<^verbatim>\<open>bool\<close> is \<^verbatim>\<open>failed()\<close>, which for the categories of the library is
  \<^verbatim>\<open>value() != 0\<close>.
\<close>

record error_code =
  ec_value :: int
  ec_category :: string

definition ec_failed :: "error_code \<Rightarrow> bool" where
  "ec_failed e = (ec_value e \<noteq> 0)"

definition ec_success :: error_code where
  "ec_success = \<lparr>ec_value = 0, ec_category = ''system''\<rparr>"

text \<open>
  An exception object. \<^verbatim>\<open>system::system_error\<close> carries the error code it was built
  from; any other exception is identified by its description. A \<^verbatim>\<open>std::exception_ptr\<close>
  is \<open>exception option\<close>, \<open>None\<close> being the null pointer.
\<close>

datatype exception = System_error error_code | Other_exception string

text \<open>
  How a member function that does not return normally ends: by
  \<^verbatim>\<open>std::rethrow_exception\<close> of a captured exception, by a \<^verbatim>\<open>throw\<close> expression of its
  own, or by undefined behaviour (reading through an empty \<^verbatim>\<open>std::optional\<close>).
\<close>

datatype fault = Rethrown exception | Thrown exception | Undefined_behaviour

section \<open>The configuration bundle \<^verbatim>\<open>process_args\<close>\<close>

text \<open>
  The state of the calling process that the default member initializers read:
  \<^verbatim>\<open>filesystem::current_path()\<close> (which throws \<^verbatim>\<open>filesystem_error\<close> when the working
  directory cannot be determined, \<open>cwd = None\<close>) and \<^verbatim>\<open>environment::current()\<close>.
\<close>

record host =
  cwd :: "string option"
  environ :: "(string \<times> string) list"

definition current_path :: "host \<Rightarrow> exception + string" where
  "current_path hst =
     (case cwd hst of
        None \<Rightarrow> Inl (Other_exception ''filesystem_error'')
      | Some p \<Rightarrow> Inr p)"

definition environment_current :: "host \<Rightarrow> (string \<times> string) list" where
  "environment_current hst = environ hst"

text \<open>
  \<^verbatim>\<open>struct process_args\<close>. The wiring of the standard streams is a library type that
  no property below inspects; it is a type parameter.
\<close>

record 'io process_args =
  stdio :: 'io
  start_dir :: string
  env :: "(string \<times> string) list"

text \<open>
  Default construction (\<^verbatim>\<open>process_args && arg = {}\<close>): \<open>io0\<close> is the
  default-constructed \<^verbatim>\<open>process_stdio\<close>; the other two members run their default
  member initializers in declaration order.
\<close>

definition process_args_default :: "'io \<Rightarrow> host \<Rightarrow> exception + 'io process_args" where
  "process_args_default io0 hst =
     (case current_path hst of
        Inl e \<Rightarrow> Inl e
      | Inr p \<Rightarrow> Inr \<lparr>stdio = io0, start_dir = p, env = environment_current hst\<rparr>)"

section \<open>The awaitables \<^verbatim>\<open>wait_op_\<close> and \<^verbatim>\<open>wait_op_ec_\<close>\<close>

text \<open>
  \<^verbatim>\<open>struct wait_op_\<close>. The field \<open>proc\<close> holds the state of the process object the
  pointer designates; \<open>result\<close> is the optional tuple the completion handler fills;
  \<open>error\<close> is the \<^verbatim>\<open>std::exception_ptr\<close>.
\<close>

type_synonym result_slot = "(error_code \<times> native_exit_code_type) option"

record 'p wait_op =
  proc :: 'p
  result :: result_slot
  error :: "exception option"

text \<open>
  \<^verbatim>\<open>struct wait_op_ec_\<close> has the same members and, in addition, the reference \<open>ec\<close>;
  the field holds the content of the caller's \<^verbatim>\<open>error_code\<close> the reference designates.
\<close>

record 'p wait_op_ec = "'p wait_op" +
  ec :: error_code

text \<open>
  \<^verbatim>\<open>process::async_wait\<close> is declared in the header and defined elsewhere, so the
  awaitables take it as a parameter. It receives the completion handler
  \<^verbatim>\<open>{h, result}\<close>, that is the coroutine handle and a reference to the result slot, acts
  on the process, and either returns or raises.
\<close>

type_synonym ('h, 'p) async_wait_fn =
  "'h \<Rightarrow> 'p \<times> result_slot \<Rightarrow> (exception + unit) \<times> ('p \<times> result_slot)"

text \<open>\<^verbatim>\<open>constexpr static bool await_ready() {return false;}\<close>, in both structs.\<close>

definition wait_op_await_ready :: "'p wait_op \<Rightarrow> bool" where
  "wait_op_await_ready w = False"

definition wait_op_ec_await_ready :: "'p wait_op_ec \<Rightarrow> bool" where
  "wait_op_ec_await_ready w = False"

text \<open>
  \<^verbatim>\<open>await_suspend\<close>: the \<^verbatim>\<open>try\<close> block calls \<^verbatim>\<open>proc->async_wait({h, result})\<close> and
  returns \<^verbatim>\<open>true\<close>; \<^verbatim>\<open>catch(...)\<close> stores \<^verbatim>\<open>std::current_exception()\<close> in \<open>error\<close> and
  returns \<^verbatim>\<open>false\<close>. The result is what the call itself does (\<open>Inl\<close>: an exception
  leaves it) and the awaitable afterwards.
\<close>

definition wait_op_await_suspend ::
  "('h, 'p) async_wait_fn \<Rightarrow> 'h \<Rightarrow> 'p wait_op \<Rightarrow> (exception + bool) \<times> 'p wait_op" where
  "wait_op_await_suspend async_wait h w =
     (case async_wait h (proc w, result w) of
        (Inr u, (p, r)) \<Rightarrow> (Inr True, w\<lparr>proc := p, result := r\<rparr>)
      | (Inl e, (p, r)) \<Rightarrow> (Inr False, w\<lparr>proc := p, result := r, error := Some e\<rparr>))"

definition wait_op_ec_await_suspend ::
  "('h, 'p) async_wait_fn \<Rightarrow> 'h \<Rightarrow> 'p wait_op_ec \<Rightarrow> (exception + bool) \<times> 'p wait_op_ec" where
  "wait_op_ec_await_suspend async_wait h w =
     (case async_wait h (proc w, result w) of
        (Inr u, (p, r)) \<Rightarrow> (Inr True, w\<lparr>proc := p, result := r\<rparr>)
      | (Inl e, (p, r)) \<Rightarrow> (Inr False, w\<lparr>proc := p, result := r, error := Some e\<rparr>))"

text \<open>
  \<^verbatim>\<open>void wait_op_::await_resume()\<close>: a non-null \<open>error\<close> is exchanged for null and
  rethrown; otherwise \<^verbatim>\<open>*result\<close> is read (undefined when the optional is empty) and a
  failed error code is thrown as \<^verbatim>\<open>system::system_error\<close>. The function returns
  nothing.
\<close>

definition wait_op_await_resume :: "'p wait_op \<Rightarrow> (fault + unit) \<times> 'p wait_op" where
  "wait_op_await_resume w =
     (case error w of
        Some e \<Rightarrow> (Inl (Rethrown e), w\<lparr>error := None\<rparr>)
      | None \<Rightarrow>
          (case result w of
             None \<Rightarrow> (Inl Undefined_behaviour, w)
           | Some (e, code) \<Rightarrow>
               if ec_failed e then (Inl (Thrown (System_error e)), w) else (Inr (), w)))"

text \<open>
  \<^verbatim>\<open>void wait_op_ec_::await_resume()\<close>: the same, except that a failed error code is
  assigned to the caller's \<open>ec\<close> instead of being thrown.
\<close>

definition wait_op_ec_await_resume :: "'p wait_op_ec \<Rightarrow> (fault + unit) \<times> 'p wait_op_ec" where
  "wait_op_ec_await_resume w =
     (case error w of
        Some e \<Rightarrow> (Inl (Rethrown e), w\<lparr>error := None\<rparr>)
      | None \<Rightarrow>
          (case result w of
             None \<Rightarrow> (Inl Undefined_behaviour, w)
           | Some (e, code) \<Rightarrow>
               if ec_failed e then (Inr (), w\<lparr>ec := e\<rparr>) else (Inr (), w)))"

section \<open>The process handle\<close>

text \<open>
  The header declares the member functions of \<^verbatim>\<open>process\<close> (constructors, destructor,
  \<^verbatim>\<open>interrupt\<close>, \<^verbatim>\<open>request_exit\<close>, \<^verbatim>\<open>terminate\<close>, \<^verbatim>\<open>wait\<close>, \<^verbatim>\<open>detach\<close>, \<^verbatim>\<open>exit_code\<close>,
  \<^verbatim>\<open>running\<close>, \<^verbatim>\<open>async_wait\<close>) and defines none of them; its only data member is the
  library object \<^verbatim>\<open>impl_\<close>. The definitions of this section are therefore written from
  the specification's description of the handle.
\<close>

text \<open>
  Modelled from the spec: the type of \<open>ownership_mode\<close> (section 3), which the header does
  not declare: Owned, Detached, Attached.
\<close>

datatype ownership_mode = Owned | Detached | Attached

text \<open>
  Modelled from the spec: the error kinds of section 7, raised by member functions whose
  bodies are missing.
\<close>

datatype error_kind = SpawnError | InvalidPid | SignalDeliveryError | WaitError | MisuseError

text \<open>
  Modelled from the spec: the operating system's side of a child process, which the
  missing member functions signal and query. The child is running or has exited with a
  native status; \<open>kill_status\<close> is the native status the system reports for the child
  once it has been killed forcefully; \<open>queries\<close> counts the exit-status queries made
  (the instrumentation seam of section 8) and \<open>kills\<close> the forceful termination signals
  issued. The system always answers a query.
\<close>

datatype child_status = Running | Exited native_exit_code_type

record os_process =
  child :: child_status
  kill_status :: native_exit_code_type
  queries :: nat
  kills :: nat

text \<open>
  Modelled from the spec: the data model of the handle (section 3), in place of the
  private members missing from the header. \<open>native_ref\<close> holds the state of the
  operating-system process the handle refers to; \<open>pending\<close> is the outstanding
  wait registration, of which there is at most one (section 3, invariants).
\<close>

record 'h process =
  native_ref :: os_process
  pid :: nat
  cached_exit_code :: "int option"
  is_open :: bool
  ownership_mode :: ownership_mode
  pending :: "'h option"

text \<open>
  Modelled from the spec: the three constructors (section 4.1), whose bodies are
  missing: spawning gives an Owned open handle, attaching to an existing pid an Attached
  open handle, and the placeholder a handle that is not open. None has a cached exit
  code. Failure to spawn or to resolve the pid is outside the handle's own logic.
\<close>

definition spawn :: "nat \<Rightarrow> os_process \<Rightarrow> 'h process" where
  "spawn i os =
     \<lparr>native_ref = os, pid = i, cached_exit_code = None, is_open = True,
      ownership_mode = Owned, pending = None\<rparr>"

definition attach :: "nat \<Rightarrow> os_process \<Rightarrow> 'h process" where
  "attach i os =
     \<lparr>native_ref = os, pid = i, cached_exit_code = None, is_open = True,
      ownership_mode = Attached, pending = None\<rparr>"


text \<open>
  Modelled from the spec: the one place where the missing bodies ask the operating
  system for the exit status of a child that has exited with native status \<open>n\<close>: the
  query is counted and the portable code \<open>portable n\<close> is cached. The normalisation
  \<open>portable\<close> of a native status (glossary: portable exit code) is a parameter.
\<close>

definition observe_exit ::
  "(native_exit_code_type \<Rightarrow> int) \<Rightarrow> native_exit_code_type \<Rightarrow> 'h process \<Rightarrow> 'h process" where
  "observe_exit portable n p =
     p\<lparr>native_ref := (native_ref p)\<lparr>queries := Suc (queries (native_ref p))\<rparr>,
       cached_exit_code := Some (portable n)\<rparr>"

text \<open>
  Modelled from the spec: \<^verbatim>\<open>process::wait\<close>, body missing (section 4.1: blocking wait for
  the process to exit; returns the portable exit code; if \<open>cached_exit_code\<close> is already
  set, returns it immediately without a syscall). The result is \<open>None\<close> while the
  call blocks, that is while the child is still running. Waiting on a handle that is not
  open is the misuse of section 7.
\<close>

definition wait ::
  "(native_exit_code_type \<Rightarrow> int) \<Rightarrow> 'h process \<Rightarrow> ((error_kind + int) \<times> 'h process) option" where
  "wait portable p =
     (case cached_exit_code p of
        Some c \<Rightarrow> Some (Inr c, p)
      | None \<Rightarrow>
          if \<not> is_open p then Some (Inl MisuseError, p)
          else
            (case child (native_ref p) of
               Running \<Rightarrow> None
             | Exited n \<Rightarrow> Some (Inr (portable n), observe_exit portable n p)))"

text \<open>
  Modelled from the spec: \<^verbatim>\<open>process::exit_code\<close>, body missing (section 4.1: a pure query
  that never blocks and never signals; section 6: it returns the portable form). The
  spec does not say what is returned before an exit has been observed; the model returns
  \<open>None\<close> there.
\<close>

definition exit_code :: "'h process \<Rightarrow> int option" where
  "exit_code p = cached_exit_code p"

text \<open>
  Modelled from the spec: \<^verbatim>\<open>process::running\<close>, body missing (section 4.1: non-blocking
  liveness check; if the process has exited since the last check, the side effect is to
  populate \<open>cached_exit_code\<close>; returns false after that point).
\<close>

definition running :: "(native_exit_code_type \<Rightarrow> int) \<Rightarrow> 'h process \<Rightarrow> bool \<times> 'h process" where
  "running portable p =
     (case cached_exit_code p of
        Some c \<Rightarrow> (False, p)
      | None \<Rightarrow>
          if \<not> is_open p then (False, p)
          else
            (case child (native_ref p) of
               Running \<Rightarrow>
                 (True, p\<lparr>native_ref := (native_ref p)\<lparr>queries := Suc (queries (native_ref p))\<rparr>\<rparr>)
             | Exited n \<Rightarrow> (False, observe_exit portable n p)))"

text \<open>
  Modelled from the spec: \<^verbatim>\<open>process::interrupt\<close> and \<^verbatim>\<open>process::request_exit\<close>, bodies
  missing (section 4.1: best-effort signals that the process may ignore entirely; they
  never block; failure to deliver, the process having already exited, is
  SignalDeliveryError). Whether the child reacts shows in a later step of the child, not
  in the call.
\<close>

definition interrupt :: "'h process \<Rightarrow> (error_kind + unit) \<times> 'h process" where
  "interrupt p =
     (if \<not> is_open p then (Inl MisuseError, p)
      else
        (case child (native_ref p) of
           Running \<Rightarrow> (Inr (), p)
         | Exited n \<Rightarrow> (Inl SignalDeliveryError, p)))"

definition request_exit :: "'h process \<Rightarrow> (error_kind + unit) \<times> 'h process" where
  "request_exit p =
     (if \<not> is_open p then (Inl MisuseError, p)
      else
        (case child (native_ref p) of
           Running \<Rightarrow> (Inr (), p)
         | Exited n \<Rightarrow> (Inl SignalDeliveryError, p)))"

text \<open>
  Modelled from the spec: \<^verbatim>\<open>process::terminate\<close>, body missing (section 4.1:
  unconditional forceful kill; after sending the kill, synchronously waits for the
  operating system to report exit and caches the exit code before returning). The kill is
  sent whether or not the child still runs; a child that had already exited keeps its
  status and the call reports SignalDeliveryError. A code cached earlier is kept
  (section 3: set at most once). Terminating a handle that is not open is the misuse of
  section 7.
\<close>

definition terminate ::
  "(native_exit_code_type \<Rightarrow> int) \<Rightarrow> 'h process \<Rightarrow> (error_kind + unit) \<times> 'h process" where
  "terminate portable p =
     (if \<not> is_open p then (Inl MisuseError, p)
      else
        (let os = native_ref p;
             n = (case child os of Running \<Rightarrow> kill_status os | Exited m \<Rightarrow> m);
             sent = p\<lparr>native_ref := os\<lparr>kills := Suc (kills os), child := Exited n\<rparr>\<rparr>;
             waited = (case cached_exit_code sent of
                         Some c \<Rightarrow> sent
                       | None \<Rightarrow> observe_exit portable n sent)
         in (case child os of
               Running \<Rightarrow> (Inr (), waited)
             | Exited m \<Rightarrow> (Inl SignalDeliveryError, waited))))"

text \<open>
  Modelled from the spec: \<^verbatim>\<open>process::detach\<close>, body missing (section 3: transfers
  \<open>ownership_mode\<close> to Detached and yields the raw handle to the caller, invalidating this
  instance; \<open>is_open\<close> is false after detachment).
\<close>

definition detach :: "'h process \<Rightarrow> os_process \<times> 'h process" where
  "detach p = (native_ref p, p\<lparr>ownership_mode := Detached, is_open := False\<rparr>)"

text \<open>
  Modelled from the spec: the destructor \<^verbatim>\<open>process::~process\<close>, body missing (section 3:
  if still owned and the process has not exited, destruction sends a forceful
  termination signal and does not wait for confirmation; section 4.3: a detached handle's
  destructor is inert; an Attached handle behaves like an Owned one for signalling). The
  handle ceases to exist; what remains is the operating system's process.
\<close>

definition destroy :: "'h process \<Rightarrow> os_process" where
  "destroy p =
     (let os = native_ref p in
      if is_open p \<and> ownership_mode p \<noteq> Detached \<and> child os = Running
      then os\<lparr>kills := Suc (kills os), child := Exited (kill_status os)\<rparr>
      else os)"

text \<open>
  Modelled from the spec: \<^verbatim>\<open>process::async_wait\<close>, body missing (section 4.1: registers a
  one-shot completion callback; a second registration before the first completes is
  caller error). It has the shape the awaitables expect of their registration function;
  the result slot is not touched at registration.
\<close>

definition async_wait :: "('h, 'h process) async_wait_fn" where
  "async_wait h = (\<lambda>(p, r).
     if is_open p \<and> pending p = None
     then (Inr (), (p\<lparr>pending := Some h\<rparr>, r))
     else (Inl (Other_exception ''MisuseError''), (p, r)))"

text \<open>
  Modelled from the spec: the firing of the registered completion callback by the
  executor, which belongs to the missing body of \<^verbatim>\<open>process::async_wait\<close> (section 4.1:
  it fires when the process exits; section 5: at most once; section 6 and the header's
  comment on \<^verbatim>\<open>async_wait\<close>: the exit code delivered is the portable one, carried in the
  handler's parameter of type \<^verbatim>\<open>native_exit_code_type\<close>). The result is \<open>None\<close> when
  nothing is registered or the child still runs; otherwise the handler and the pair it
  receives. Observing the exit caches the code unless one is cached (section 8).
\<close>

definition complete ::
  "(native_exit_code_type \<Rightarrow> int) \<Rightarrow> 'h process \<Rightarrow>
     (('h \<times> error_code \<times> native_exit_code_type) \<times> 'h process) option" where
  "complete portable p =
     (case pending p of
        None \<Rightarrow> None
      | Some h \<Rightarrow>
          (case child (native_ref p) of
             Running \<Rightarrow> None
           | Exited n \<Rightarrow>
               Some ((h, ec_success, portable n),
                     (case cached_exit_code p of
                        Some c \<Rightarrow> p\<lparr>pending := None\<rparr>
                      | None \<Rightarrow> observe_exit portable n (p\<lparr>pending := None\<rparr>)))))"

text \<open>
  Modelled from the spec: the lifetime of a handle as a sequence of events, each a call
  of one of the missing member functions or the child exiting by itself with a native
  status. A call that blocks leaves the state as it is.
\<close>

datatype 'h event =
    Wait | Terminate | Running_check | Interrupt | Request_exit | Detach
  | Async_wait 'h | Complete | Child_exits native_exit_code_type

fun step :: "(native_exit_code_type \<Rightarrow> int) \<Rightarrow> 'h event \<Rightarrow> 'h process \<Rightarrow> 'h process" where
  "step portable Wait p = (case wait portable p of None \<Rightarrow> p | Some (r, p') \<Rightarrow> p')"
| "step portable Terminate p = snd (terminate portable p)"
| "step portable Running_check p = snd (running portable p)"
| "step portable Interrupt p = snd (interrupt p)"
| "step portable Request_exit p = snd (request_exit p)"
| "step portable Detach p = snd (detach p)"
| "step portable (Async_wait h) p = fst (snd (async_wait h (p, None)))"
| "step portable Complete p = (case complete portable p of None \<Rightarrow> p | Some (r, p') \<Rightarrow> p')"
| "step portable (Child_exits n) p =
     (case child (native_ref p) of
        Running \<Rightarrow> p\<lparr>native_ref := (native_ref p)\<lparr>child := Exited n\<rparr>\<rparr>
      | Exited m \<Rightarrow> p)"

fun run :: "(native_exit_code_type \<Rightarrow> int) \<Rightarrow> 'h event list \<Rightarrow> 'h process \<Rightarrow> 'h process" where
  "run portable [] p = p"
| "run portable (ev # evs) p = run portable evs (step portable ev p)"

text \<open>
  The cached code, when there is one, is the portable form of the status with which the
  child has exited.
\<close>

definition cache_consistent :: "(native_exit_code_type \<Rightarrow> int) \<Rightarrow> 'h process \<Rightarrow> bool" where
  "cache_consistent portable p =
     (case cached_exit_code p of
        None \<Rightarrow> True
      | Some c \<Rightarrow>
          (case child (native_ref p) of
             Running \<Rightarrow> False
           | Exited n \<Rightarrow> c = portable n))"

text \<open>
  An instance of the normalisation, used where a concrete one is needed: the POSIX
  reading of a wait status, whose low seven bits hold the terminating signal and, when
  these are zero, whose next eight bits hold the exit status.
\<close>

definition posix_exit_code :: "native_exit_code_type \<Rightarrow> int" where
  "posix_exit_code n = (if n mod 128 = 0 then n div 256 mod 256 else n mod 128)"

section \<open>Properties of the awaitables\<close>

text \<open>
  C7. In both variants and for every state of the awaitable, whether or not the process
  it designates has already exited, \<^verbatim>\<open>await_ready\<close> returns false.
\<close>

theorem await_ready_never_ready:
  "\<not> wait_op_await_ready (w :: 'p wait_op) \<and> \<not> wait_op_ec_await_ready (v :: 'p wait_op_ec)"
  by (simp add: wait_op_await_ready_def wait_op_ec_await_ready_def)

text \<open>
  C3. When the registration call made inside \<^verbatim>\<open>await_suspend\<close> raises \<open>x\<close>, the call
  returns \<^verbatim>\<open>false\<close> with \<open>x\<close> stored in the \<open>error\<close> member; when the registration
  returns, \<^verbatim>\<open>await_suspend\<close> returns \<^verbatim>\<open>true\<close> and leaves \<open>error\<close> as it was. In neither
  case does an exception leave \<^verbatim>\<open>await_suspend\<close>. This holds for both variants and for
  every registration function.
\<close>

theorem await_suspend_captures_registration_failure:
  fixes aw :: "('h, 'p) async_wait_fn"
  shows
    "(fst (aw h (proc w, result w)) = Inl x \<longrightarrow>
        fst (wait_op_await_suspend aw h w) = Inr False \<and>
        error (snd (wait_op_await_suspend aw h w)) = Some x) \<and>
     (fst (aw h (proc w, result w)) = Inr () \<longrightarrow>
        fst (wait_op_await_suspend aw h w) = Inr True \<and>
        error (snd (wait_op_await_suspend aw h w)) = error w) \<and>
     (\<exists>b. fst (wait_op_await_suspend aw h w) = Inr b) \<and>
     (fst (aw h (proc v, result v)) = Inl x \<longrightarrow>
        fst (wait_op_ec_await_suspend aw h v) = Inr False \<and>
        error (snd (wait_op_ec_await_suspend aw h v)) = Some x \<and>
        ec (snd (wait_op_ec_await_suspend aw h v)) = ec v) \<and>
     (fst (aw h (proc v, result v)) = Inr () \<longrightarrow>
        fst (wait_op_ec_await_suspend aw h v) = Inr True \<and>
        error (snd (wait_op_ec_await_suspend aw h v)) = error v \<and>
        ec (snd (wait_op_ec_await_suspend aw h v)) = ec v) \<and>
     (\<exists>b. fst (wait_op_ec_await_suspend aw h v) = Inr b)"
proof -
  obtain o1 p1 r1 where a1: "aw h (proc w, result w) = (o1, (p1, r1))"
    by (metis prod.exhaust)
  obtain o2 p2 r2 where a2: "aw h (proc v, result v) = (o2, (p2, r2))"
    by (metis prod.exhaust)
  have A: "(o1 = Inl x \<longrightarrow>
        fst (wait_op_await_suspend aw h w) = Inr False \<and>
        error (snd (wait_op_await_suspend aw h w)) = Some x) \<and>
     (o1 = Inr () \<longrightarrow>
        fst (wait_op_await_suspend aw h w) = Inr True \<and>
        error (snd (wait_op_await_suspend aw h w)) = error w) \<and>
     (\<exists>b. fst (wait_op_await_suspend aw h w) = Inr b)"
    by (cases o1) (auto simp: wait_op_await_suspend_def a1)
  have B: "(o2 = Inl x \<longrightarrow>
        fst (wait_op_ec_await_suspend aw h v) = Inr False \<and>
        error (snd (wait_op_ec_await_suspend aw h v)) = Some x \<and>
        ec (snd (wait_op_ec_await_suspend aw h v)) = ec v) \<and>
     (o2 = Inr () \<longrightarrow>
        fst (wait_op_ec_await_suspend aw h v) = Inr True \<and>
        error (snd (wait_op_ec_await_suspend aw h v)) = error v \<and>
        ec (snd (wait_op_ec_await_suspend aw h v)) = ec v) \<and>
     (\<exists>b. fst (wait_op_ec_await_suspend aw h v) = Inr b)"
    by (cases o2) (auto simp: wait_op_ec_await_suspend_def a2)
  from A B show ?thesis by (simp add: a1 a2)
qed

text \<open>
  An instance: the process state is the flag "a handler is already registered"; the
  registration raises when it is set and registers otherwise.
\<close>

theorem await_suspend_captures_registration_failure_witness:
  "fst (wait_op_await_suspend
          (\<lambda>h (p, r). if p then (Inl (Other_exception ''busy''), (p, r)) else (Inr (), (True, r)))
          (1::nat) \<lparr>proc = True, result = None, error = None\<rparr>) = Inr False \<and>
   error (snd (wait_op_await_suspend
          (\<lambda>h (p, r). if p then (Inl (Other_exception ''busy''), (p, r)) else (Inr (), (True, r)))
          (1::nat) \<lparr>proc = True, result = None, error = None\<rparr>)) = Some (Other_exception ''busy'') \<and>
   fst (wait_op_ec_await_suspend
          (\<lambda>h (p, r). if p then (Inl (Other_exception ''busy''), (p, r)) else (Inr (), (True, r)))
          (1::nat) \<lparr>proc = True, result = None, error = None, ec = ec_success\<rparr>) = Inr False \<and>
   fst (wait_op_await_suspend
          (\<lambda>h (p, r). if p then (Inl (Other_exception ''busy''), (p, r)) else (Inr (), (True, r)))
          (1::nat) \<lparr>proc = False, result = None, error = None\<rparr>) = Inr True \<and>
   fst (wait_op_ec_await_suspend
          (\<lambda>h (p, r). if p then (Inl (Other_exception ''busy''), (p, r)) else (Inr (), (True, r)))
          (1::nat) \<lparr>proc = False, result = None, error = None, ec = ec_success\<rparr>) = Inr True"
  using
    await_suspend_captures_registration_failure
      [of "\<lambda>h (p, r). if p then (Inl (Other_exception ''busy''), (p, r)) else (Inr (), (True, r))"
          "1::nat" "\<lparr>proc = True, result = None, error = None\<rparr>" "Other_exception ''busy''"
          "\<lparr>proc = True, result = None, error = None, ec = ec_success\<rparr>"]
    await_suspend_captures_registration_failure
      [of "\<lambda>h (p, r). if p then (Inl (Other_exception ''busy''), (p, r)) else (Inr (), (True, r))"
          "1::nat" "\<lparr>proc = False, result = None, error = None\<rparr>" "Other_exception ''busy''"
          "\<lparr>proc = False, result = None, error = None, ec = ec_success\<rparr>"]
  by simp

text \<open>
  C9. In both variants \<^verbatim>\<open>await_resume\<close> empties the \<open>error\<close> member before it rethrows
  the captured exception: the first resume over a state holding \<open>x\<close> rethrows \<open>x\<close> and
  leaves \<open>error\<close> null, and a second resume over the state so left does not rethrow.
\<close>

theorem await_resume_rethrows_once:
  "(error w = Some x \<longrightarrow>
      fst (wait_op_await_resume w) = Inl (Rethrown x) \<and>
      error (snd (wait_op_await_resume w)) = None \<and>
      (\<forall>y. fst (wait_op_await_resume (snd (wait_op_await_resume w))) \<noteq> Inl (Rethrown y))) \<and>
   (error v = Some x \<longrightarrow>
      fst (wait_op_ec_await_resume v) = Inl (Rethrown x) \<and>
      error (snd (wait_op_ec_await_resume v)) = None \<and>
      (\<forall>y. fst (wait_op_ec_await_resume (snd (wait_op_ec_await_resume v))) \<noteq> Inl (Rethrown y)))"
proof -
  have no_rethrow_A: "fst (wait_op_await_resume u) \<noteq> Inl (Rethrown y)"
    if "error u = None" for u :: "'a wait_op" and y
    using that by (simp add: wait_op_await_resume_def split: option.splits prod.splits)
  have no_rethrow_B: "fst (wait_op_ec_await_resume u) \<noteq> Inl (Rethrown y)"
    if "error u = None" for u :: "'b wait_op_ec" and y
    using that by (simp add: wait_op_ec_await_resume_def split: option.splits prod.splits)
  have A: "fst (wait_op_await_resume w) = Inl (Rethrown x) \<and>
      error (snd (wait_op_await_resume w)) = None" if "error w = Some x"
    using that by (simp add: wait_op_await_resume_def)
  have B: "fst (wait_op_ec_await_resume v) = Inl (Rethrown x) \<and>
      error (snd (wait_op_ec_await_resume v)) = None" if "error v = Some x"
    using that by (simp add: wait_op_ec_await_resume_def)
  show ?thesis
    using A B no_rethrow_A no_rethrow_B by blast
qed

theorem await_resume_rethrows_once_witness:
  "fst (wait_op_await_resume
          \<lparr>proc = (), result = None, error = Some (Other_exception ''busy'')\<rparr>)
     = Inl (Rethrown (Other_exception ''busy'')) \<and>
   fst (wait_op_await_resume (snd (wait_op_await_resume
          \<lparr>proc = (), result = None, error = Some (Other_exception ''busy'')\<rparr>)))
     \<noteq> Inl (Rethrown (Other_exception ''busy'')) \<and>
   fst (wait_op_ec_await_resume
          \<lparr>proc = (), result = None, error = Some (Other_exception ''busy''), ec = ec_success\<rparr>)
     = Inl (Rethrown (Other_exception ''busy'')) \<and>
   fst (wait_op_ec_await_resume (snd (wait_op_ec_await_resume
          \<lparr>proc = (), result = None, error = Some (Other_exception ''busy''), ec = ec_success\<rparr>)))
     \<noteq> Inl (Rethrown (Other_exception ''busy''))"
  using await_resume_rethrows_once
    [of "\<lparr>proc = (), result = None, error = Some (Other_exception ''busy'')\<rparr>"
        "Other_exception ''busy''"
        "\<lparr>proc = (), result = None, error = Some (Other_exception ''busy''), ec = ec_success\<rparr>"]
  by simp

text \<open>
  C10. \<^verbatim>\<open>wait_op_ec_::await_resume\<close> assigns to the caller's \<open>ec\<close> only when no exception
  was captured and the stored error code is a failure. When the stored error code is a
  success the call returns and the whole awaitable, the caller's \<open>ec\<close> included, is as
  it was before: \<open>ec\<close> is not reset to a success value.
\<close>

theorem await_resume_ec_written_only_on_failure:
  "(error v = None \<longrightarrow> result v = Some (e, code) \<longrightarrow> \<not> ec_failed e \<longrightarrow>
      wait_op_ec_await_resume v = (Inr (), v)) \<and>
   (ec (snd (wait_op_ec_await_resume v)) \<noteq> ec v \<longrightarrow>
      error v = None \<and>
      (\<exists>e' code'. result v = Some (e', code') \<and> ec_failed e' \<and>
         ec (snd (wait_op_ec_await_resume v)) = e'))"
  by (auto simp: wait_op_ec_await_resume_def split: option.splits prod.splits if_splits)

text \<open>
  Two instances: a caller's \<open>ec\<close> that holds a stale failure keeps it across a successful
  wait, and a successful \<open>ec\<close> is overwritten by a failed wait.
\<close>

theorem await_resume_ec_written_only_on_failure_witness:
  "ec (snd (wait_op_ec_await_resume
        \<lparr>proc = (), result = Some (ec_success, 0), error = None,
         ec = \<lparr>ec_value = 5, ec_category = ''generic''\<rparr>\<rparr>))
     = \<lparr>ec_value = 5, ec_category = ''generic''\<rparr> \<and>
   fst (wait_op_ec_await_resume
        \<lparr>proc = (), result = Some (ec_success, 0), error = None,
         ec = \<lparr>ec_value = 5, ec_category = ''generic''\<rparr>\<rparr>) = Inr () \<and>
   ec_failed \<lparr>ec_value = 10, ec_category = ''system''\<rparr> \<and>
   ec (snd (wait_op_ec_await_resume
        \<lparr>proc = (), result = Some (\<lparr>ec_value = 10, ec_category = ''system''\<rparr>, 0), error = None,
         ec = ec_success\<rparr>))
     = \<lparr>ec_value = 10, ec_category = ''system''\<rparr>"
proof -
  let ?ok = "\<lparr>proc = (), result = Some (ec_success, 0), error = None,
              ec = \<lparr>ec_value = 5, ec_category = ''generic''\<rparr>\<rparr>"
  let ?bad = "\<lparr>proc = (), result = Some (\<lparr>ec_value = 10, ec_category = ''system''\<rparr>, 0),
               error = None, ec = ec_success\<rparr>"
  have h1: "error ?ok = None" and h2: "result ?ok = Some (ec_success, 0)"
    and h3: "\<not> ec_failed ec_success"
    by (simp_all add: ec_failed_def ec_success_def)
  have changed: "ec (snd (wait_op_ec_await_resume ?bad)) \<noteq> ec ?bad"
    by (simp add: wait_op_ec_await_resume_def ec_failed_def ec_success_def)
  from await_resume_ec_written_only_on_failure [of ?ok ec_success 0] h1 h2 h3
  have "wait_op_ec_await_resume ?ok = (Inr (), ?ok)" by blast
  moreover
  from await_resume_ec_written_only_on_failure [of ?bad ec_success 0] changed
  have "\<exists>e' code'. result ?bad = Some (e', code') \<and> ec_failed e' \<and>
          ec (snd (wait_op_ec_await_resume ?bad)) = e'" by blast
  ultimately show ?thesis by auto
qed

text \<open>
  C2, as stated, asks that without a failure both variants return the exit code to the
  resumed caller. \<^verbatim>\<open>await_resume\<close> is declared \<^verbatim>\<open>void\<close> in both structs: with the stored
  exit status 7 and with the stored exit status 9 the call returns the same unit value,
  so the caller is handed no exit code.
\<close>

theorem await_resume_returns_no_exit_code:
  "fst (wait_op_await_resume \<lparr>proc = (), result = Some (ec_success, 7), error = None\<rparr>)
     = Inr () \<and>
   fst (wait_op_await_resume \<lparr>proc = (), result = Some (ec_success, 9), error = None\<rparr>)
     = Inr () \<and>
   fst (wait_op_ec_await_resume
          \<lparr>proc = (), result = Some (ec_success, 7), error = None, ec = ec_success\<rparr>)
     = Inr () \<and>
   fst (wait_op_ec_await_resume
          \<lparr>proc = (), result = Some (ec_success, 9), error = None, ec = ec_success\<rparr>)
     = Inr ()"
  by (simp add: wait_op_await_resume_def wait_op_ec_await_resume_def ec_failed_def
      ec_success_def)

text \<open>
  C2, amended. In both variants \<^verbatim>\<open>await_resume\<close> first rethrows a captured registration
  exception if one is present. Otherwise, with a stored result whose error code is a
  failure, \<^verbatim>\<open>wait_op_\<close> throws \<^verbatim>\<open>system_error\<close> built from that code, while \<^verbatim>\<open>wait_op_ec_\<close>
  assigns the code to the caller's \<open>ec\<close> and returns. Otherwise, with a stored result
  whose error code is a success, both variants return normally; the call is \<^verbatim>\<open>void\<close> and
  hands the caller no exit code, and the awaitable is left as it was.
\<close>

theorem await_resume_order_of_checks:
  "(error w = Some x \<longrightarrow> fst (wait_op_await_resume w) = Inl (Rethrown x)) \<and>
   (error w = None \<longrightarrow> result w = Some (e, code) \<longrightarrow> ec_failed e \<longrightarrow>
      fst (wait_op_await_resume w) = Inl (Thrown (System_error e))) \<and>
   (error w = None \<longrightarrow> result w = Some (e, code) \<longrightarrow> \<not> ec_failed e \<longrightarrow>
      wait_op_await_resume w = (Inr (), w)) \<and>
   (error v = Some x \<longrightarrow> fst (wait_op_ec_await_resume v) = Inl (Rethrown x)) \<and>
   (error v = None \<longrightarrow> result v = Some (e, code) \<longrightarrow> ec_failed e \<longrightarrow>
      wait_op_ec_await_resume v = (Inr (), v\<lparr>ec := e\<rparr>)) \<and>
   (error v = None \<longrightarrow> result v = Some (e, code) \<longrightarrow> \<not> ec_failed e \<longrightarrow>
      wait_op_ec_await_resume v = (Inr (), v))"
  by (simp add: wait_op_await_resume_def wait_op_ec_await_resume_def)

text \<open>
  Instances of each case: a captured exception together with a failed result (the
  exception wins), a failed result alone, and a successful result.
\<close>

theorem await_resume_order_of_checks_witness:
  "fst (wait_op_await_resume
          \<lparr>proc = (), result = Some (\<lparr>ec_value = 10, ec_category = ''system''\<rparr>, 0),
           error = Some (Other_exception ''busy'')\<rparr>)
     = Inl (Rethrown (Other_exception ''busy'')) \<and>
   fst (wait_op_ec_await_resume
          \<lparr>proc = (), result = Some (\<lparr>ec_value = 10, ec_category = ''system''\<rparr>, 0),
           error = Some (Other_exception ''busy''), ec = ec_success\<rparr>)
     = Inl (Rethrown (Other_exception ''busy'')) \<and>
   fst (wait_op_await_resume
          \<lparr>proc = (), result = Some (\<lparr>ec_value = 10, ec_category = ''system''\<rparr>, 0),
           error = None\<rparr>)
     = Inl (Thrown (System_error \<lparr>ec_value = 10, ec_category = ''system''\<rparr>)) \<and>
   wait_op_ec_await_resume
          \<lparr>proc = (), result = Some (\<lparr>ec_value = 10, ec_category = ''system''\<rparr>, 0),
           error = None, ec = ec_success\<rparr>
     = (Inr (),
        \<lparr>proc = (), result = Some (\<lparr>ec_value = 10, ec_category = ''system''\<rparr>, 0),
         error = None, ec = \<lparr>ec_value = 10, ec_category = ''system''\<rparr>\<rparr>) \<and>
   fst (wait_op_await_resume
          \<lparr>proc = (), result = Some (ec_success, 1792), error = None\<rparr>) = Inr () \<and>
   fst (wait_op_ec_await_resume
          \<lparr>proc = (), result = Some (ec_success, 1792), error = None, ec = ec_success\<rparr>)
     = Inr ()"
proof -
  let ?bad = "\<lparr>ec_value = 10, ec_category = ''system''\<rparr>"
  have f: "ec_failed ?bad" and s: "\<not> ec_failed ec_success"
    by (simp_all add: ec_failed_def ec_success_def)
  show ?thesis
    using
      await_resume_order_of_checks
        [of "\<lparr>proc = (), result = Some (?bad, 0), error = Some (Other_exception ''busy'')\<rparr>"
            "Other_exception ''busy''" ?bad 0
            "\<lparr>proc = (), result = Some (?bad, 0), error = Some (Other_exception ''busy''),
              ec = ec_success\<rparr>"]
      await_resume_order_of_checks
        [of "\<lparr>proc = (), result = Some (?bad, 0), error = None\<rparr>"
            "Other_exception ''busy''" ?bad 0
            "\<lparr>proc = (), result = Some (?bad, 0), error = None, ec = ec_success\<rparr>"]
      await_resume_order_of_checks
        [of "\<lparr>proc = (), result = Some (ec_success, 1792), error = None\<rparr>"
            "Other_exception ''busy''" ec_success 1792
            "\<lparr>proc = (), result = Some (ec_success, 1792), error = None, ec = ec_success\<rparr>"]
      f s
    by simp
qed

section \<open>Properties of the configuration bundle\<close>

text \<open>
  C8. A default-constructed \<^verbatim>\<open>process_args\<close> has as start directory the working
  directory the calling process has at construction time, and as environment the
  current environment of the calling process.
\<close>

theorem process_args_default_values:
  "cwd hst = Some p \<Longrightarrow>
     process_args_default io0 hst = Inr \<lparr>stdio = io0, start_dir = p, env = environ hst\<rparr>"
  by (simp add: process_args_default_def current_path_def environment_current_def)

theorem process_args_default_values_witness:
  "process_args_default ()
     \<lparr>cwd = Some ''/home/user'', environ = [(''PATH'', ''/usr/bin''), (''LANG'', ''C'')]\<rparr>
   = Inr \<lparr>stdio = (), start_dir = ''/home/user'',
          env = [(''PATH'', ''/usr/bin''), (''LANG'', ''C'')]\<rparr>"
  using process_args_default_values
    [of "\<lparr>cwd = Some ''/home/user'', environ = [(''PATH'', ''/usr/bin''), (''LANG'', ''C'')]\<rparr>"
        "''/home/user''" "()"]
  by simp

section \<open>Properties of the process handle\<close>

lemma wait_cached: "cached_exit_code p = Some c \<Longrightarrow> wait portable p = Some (Inr c, p)"
  by (simp add: wait_def)

lemma cached_kept_by_step:
  "cached_exit_code p = Some c \<Longrightarrow> cached_exit_code (step portable ev p) = Some c"
  by (cases ev)
     (auto simp: wait_def terminate_def running_def interrupt_def request_exit_def detach_def
        async_wait_def complete_def Let_def split: option.splits child_status.splits if_splits)

lemma cached_kept_by_run:
  "cached_exit_code p = Some c \<Longrightarrow> cached_exit_code (run portable evs p) = Some c"
  by (induction evs arbitrary: p) (simp_all add: cached_kept_by_step)

lemma consistent_step:
  "cache_consistent portable p \<Longrightarrow> cache_consistent portable (step portable ev p)"
  by (cases ev)
     (auto simp: cache_consistent_def wait_def terminate_def running_def interrupt_def
        request_exit_def detach_def async_wait_def complete_def observe_exit_def Let_def
        split: option.splits child_status.splits if_splits)

lemma consistent_run:
  "cache_consistent portable p \<Longrightarrow> cache_consistent portable (run portable evs p)"
  by (induction evs arbitrary: p) (simp_all add: consistent_step)

lemma detached_kept_by_step:
  "ownership_mode p = Detached \<Longrightarrow> ownership_mode (step portable ev p) = Detached"
  by (cases ev)
     (auto simp: wait_def terminate_def running_def interrupt_def request_exit_def detach_def
        async_wait_def complete_def observe_exit_def Let_def
        split: option.splits child_status.splits if_splits)

text \<open>
  C4. Once \<open>cached_exit_code\<close> holds a code \<open>c\<close> it holds \<open>c\<close> after every further
  sequence of events of the handle's lifetime, and every later \<^verbatim>\<open>wait\<close> returns \<open>c\<close>
  and leaves the handle and the operating system's side, the query counter included, as
  they were. The first \<^verbatim>\<open>wait\<close> on an open handle whose child has exited with native
  status \<open>n\<close> makes one query, caches and returns the portable code of \<open>n\<close>, and a second
  \<^verbatim>\<open>wait\<close> returns the same code without a query.
\<close>

theorem cached_exit_code_set_once:
  "(cached_exit_code p = Some c \<longrightarrow>
      cached_exit_code (run portable evs p) = Some c \<and>
      wait portable (run portable evs p) = Some (Inr c, run portable evs p)) \<and>
   (cached_exit_code p = None \<longrightarrow> is_open p \<longrightarrow> child (native_ref p) = Exited n \<longrightarrow>
      wait portable p = Some (Inr (portable n), observe_exit portable n p) \<and>
      queries (native_ref (observe_exit portable n p)) = Suc (queries (native_ref p)) \<and>
      wait portable (observe_exit portable n p)
        = Some (Inr (portable n), observe_exit portable n p))"
proof -
  have kept: "cached_exit_code (run portable evs p) = Some c" if "cached_exit_code p = Some c"
    using that by (rule cached_kept_by_run)
  have first: "wait portable p = Some (Inr (portable n), observe_exit portable n p)"
    if "cached_exit_code p = None" "is_open p" "child (native_ref p) = Exited n"
    using that by (simp add: wait_def)
  have counted: "queries (native_ref (observe_exit portable n p)) = Suc (queries (native_ref p))"
    by (simp add: observe_exit_def)
  have "cached_exit_code (observe_exit portable n p) = Some (portable n)"
    by (simp add: observe_exit_def)
  then have second: "wait portable (observe_exit portable n p)
        = Some (Inr (portable n), observe_exit portable n p)"
    by (rule wait_cached)
  show ?thesis
    using kept wait_cached [of "run portable evs p" c portable] first counted second by blast
qed

text \<open>
  The scenario of the specification: the child has exited with code 7 (native status
  1792). The first \<^verbatim>\<open>wait\<close> returns 7 after one query; the second returns 7 with the
  counter still at one; the cached code survives later calls.
\<close>

theorem cached_exit_code_set_once_witness:
  "wait posix_exit_code
     (spawn 42 \<lparr>child = Exited 1792, kill_status = 9, queries = 0, kills = 0\<rparr> :: nat process)
   = Some (Inr 7,
       \<lparr>native_ref = \<lparr>child = Exited 1792, kill_status = 9, queries = 1, kills = 0\<rparr>,
        pid = 42, cached_exit_code = Some 7, is_open = True, ownership_mode = Owned,
        pending = None\<rparr>) \<and>
   wait posix_exit_code
     (\<lparr>native_ref = \<lparr>child = Exited 1792, kill_status = 9, queries = 1, kills = 0\<rparr>,
        pid = 42, cached_exit_code = Some 7, is_open = True, ownership_mode = Owned,
        pending = None\<rparr> :: nat process)
   = Some (Inr 7,
       \<lparr>native_ref = \<lparr>child = Exited 1792, kill_status = 9, queries = 1, kills = 0\<rparr>,
        pid = 42, cached_exit_code = Some 7, is_open = True, ownership_mode = Owned,
        pending = None\<rparr>) \<and>
   cached_exit_code (run posix_exit_code [Terminate, Running_check, Wait]
     (\<lparr>native_ref = \<lparr>child = Exited 1792, kill_status = 9, queries = 1, kills = 0\<rparr>,
        pid = 42, cached_exit_code = Some 7, is_open = True, ownership_mode = Owned,
        pending = None\<rparr> :: nat process)) = Some 7"
  using
    cached_exit_code_set_once
      [of "spawn 42 \<lparr>child = Exited 1792, kill_status = 9, queries = 0, kills = 0\<rparr> :: nat process"
          7 posix_exit_code "[]" 1792]
    cached_exit_code_set_once
      [of "\<lparr>native_ref = \<lparr>child = Exited 1792, kill_status = 9, queries = 1, kills = 0\<rparr>,
        pid = 42, cached_exit_code = Some 7, is_open = True, ownership_mode = Owned,
        pending = None\<rparr> :: nat process"
          7 posix_exit_code "[Terminate, Running_check, Wait]" 1792]
  by (simp add: spawn_def observe_exit_def posix_exit_code_def)






text \<open>
  C6. Destroying a handle whose \<open>ownership_mode\<close> is Detached, at any later point of its
  lifetime, leaves the operating system's process exactly as it was: no termination
  signal is issued and a running child keeps running. \<^verbatim>\<open>detach\<close> hands out the process
  reference and puts the handle into that mode.
\<close>

theorem detached_destructor_sends_no_signal:
  "(ownership_mode p = Detached \<longrightarrow>
      destroy (run portable evs p) = native_ref (run portable evs p)) \<and>
   fst (detach q) = native_ref q \<and>
   ownership_mode (snd (detach q)) = Detached \<and>
   destroy (snd (detach q)) = native_ref q"
proof -
  have kept: "ownership_mode (run portable evs p) = Detached" if "ownership_mode p = Detached"
    using that by (induction evs arbitrary: p) (simp_all add: detached_kept_by_step)
  have inert: "destroy u = native_ref u" if "ownership_mode u = Detached" for u :: "'a process"
    using that by (simp add: destroy_def)
  have d: "fst (detach q) = native_ref q \<and> ownership_mode (snd (detach q)) = Detached \<and>
      destroy (snd (detach q)) = native_ref q"
    by (simp add: detach_def destroy_def)
  from kept inert d show ?thesis by blast
qed

text \<open>
  A long-running child: after \<^verbatim>\<open>detach\<close> the destructor leaves it running with no kill
  sent, whereas the destructor of the handle that was not detached kills it.
\<close>

theorem detached_destructor_sends_no_signal_witness:
  "destroy (snd (detach
     (spawn 42 \<lparr>child = Running, kill_status = 9, queries = 0, kills = 0\<rparr> :: nat process)))
   = \<lparr>child = Running, kill_status = 9, queries = 0, kills = 0\<rparr> \<and>
   destroy (spawn 42 \<lparr>child = Running, kill_status = 9, queries = 0, kills = 0\<rparr> :: nat process)
   = \<lparr>child = Exited 9, kill_status = 9, queries = 0, kills = 1\<rparr>"
proof -
  let ?q = "spawn 42 \<lparr>child = Running, kill_status = 9, queries = 0, kills = 0\<rparr> :: nat process"
  have d: "ownership_mode (snd (detach ?q)) = Detached" by (simp add: detach_def)
  from detached_destructor_sends_no_signal [of "snd (detach ?q)" posix_exit_code "[]" ?q] d
  have "destroy (snd (detach ?q)) = native_ref ?q" by blast
  moreover have "native_ref ?q = \<lparr>child = Running, kill_status = 9, queries = 0, kills = 0\<rparr>"
    by (simp add: spawn_def)
  moreover have "destroy ?q = \<lparr>child = Exited 9, kill_status = 9, queries = 0, kills = 1\<rparr>"
    by (simp add: destroy_def spawn_def)
  ultimately show ?thesis by simp
qed

text \<open>
  C1. At every point of the lifetime of a handle that started without a cached code,
  the value a returning \<^verbatim>\<open>wait\<close> returns, the value \<^verbatim>\<open>exit_code\<close> returns and the value
  the completion handler registered by \<^verbatim>\<open>async_wait\<close> receives are each the portable
  normalisation of the native status with which the child has exited, not that native
  status itself.
\<close>

theorem exit_observations_are_portable:
  "cached_exit_code p0 = None \<Longrightarrow> p = run portable evs p0 \<Longrightarrow>
     (wait portable p = Some (Inr c, p') \<longrightarrow>
        (\<exists>n. child (native_ref p') = Exited n \<and> c = portable n)) \<and>
     (exit_code p = Some c \<longrightarrow>
        (\<exists>n. child (native_ref p) = Exited n \<and> c = portable n)) \<and>
     (complete portable p = Some ((h, e, c), p') \<longrightarrow>
        (\<exists>n. child (native_ref p') = Exited n \<and> c = portable n))"
proof -
  assume fresh: "cached_exit_code p0 = None" and p: "p = run portable evs p0"
  from fresh have "cache_consistent portable p0"
    by (simp add: cache_consistent_def)
  then have inv: "cache_consistent portable p"
    unfolding p by (rule consistent_run)
  have w: "\<exists>n. child (native_ref p') = Exited n \<and> c = portable n"
    if "wait portable p = Some (Inr c, p')"
    using that inv
    by (auto simp: wait_def cache_consistent_def observe_exit_def
        split: option.splits child_status.splits if_splits)
  have x: "\<exists>n. child (native_ref p) = Exited n \<and> c = portable n"
    if "exit_code p = Some c"
    using that inv
    by (auto simp: exit_code_def cache_consistent_def split: child_status.splits)
  have a: "\<exists>n. child (native_ref p') = Exited n \<and> c = portable n"
    if "complete portable p = Some ((h, e, c), p')"
    using that
    by (auto simp: complete_def observe_exit_def split: option.splits child_status.splits)
  from w x a show ?thesis by blast
qed

text \<open>
  A child that exits with code 7 (native status 1792) while a completion handler is
  registered: the handler receives 7, a \<^verbatim>\<open>wait\<close> returns 7, and \<^verbatim>\<open>exit_code\<close> after a
  \<^verbatim>\<open>wait\<close> returns 7; none of them is the native 1792.
\<close>

theorem exit_observations_are_portable_witness:
  "map_option fst (complete posix_exit_code (run posix_exit_code [Async_wait 5, Child_exits 1792]
     (spawn 42 \<lparr>child = Running, kill_status = 9, queries = 0, kills = 0\<rparr> :: nat process)))
   = Some (5, ec_success, 7) \<and>
   map_option fst (wait posix_exit_code (run posix_exit_code [Async_wait 5, Child_exits 1792]
     (spawn 42 \<lparr>child = Running, kill_status = 9, queries = 0, kills = 0\<rparr> :: nat process)))
   = Some (Inr 7) \<and>
   exit_code (run posix_exit_code [Child_exits 1792, Wait]
     (spawn 42 \<lparr>child = Running, kill_status = 9, queries = 0, kills = 0\<rparr> :: nat process))
   = Some 7 \<and>
   posix_exit_code 1792 = 7"
proof -
  let ?p0 = "spawn 42 \<lparr>child = Running, kill_status = 9, queries = 0, kills = 0\<rparr> :: nat process"
  let ?p1 = "run posix_exit_code [Async_wait 5, Child_exits 1792] ?p0"
  let ?p2 = "run posix_exit_code [Child_exits 1792, Wait] ?p0"
  let ?seen = "\<lparr>native_ref = \<lparr>child = Exited 1792, kill_status = 9, queries = 1, kills = 0\<rparr>,
        pid = 42, cached_exit_code = Some 7, is_open = True, ownership_mode = Owned,
        pending = None\<rparr> :: nat process"
  have fresh: "cached_exit_code ?p0 = None"
    by (simp add: spawn_def)
  have n: "posix_exit_code 1792 = 7"
    by (simp add: posix_exit_code_def)
  have c: "complete posix_exit_code ?p1 = Some ((5, ec_success, 7), ?seen)"
    by (simp add: spawn_def async_wait_def complete_def observe_exit_def n)
  have w: "wait posix_exit_code ?p1 = Some (Inr 7, ?seen\<lparr>pending := Some 5\<rparr>)"
    by (simp add: spawn_def async_wait_def wait_def observe_exit_def n)
  have x: "exit_code ?p2 = Some 7"
    by (simp add: spawn_def wait_def exit_code_def observe_exit_def n)
  from exit_observations_are_portable [OF fresh refl, of posix_exit_code
      "[Async_wait 5, Child_exits 1792]" 7 "?seen\<lparr>pending := Some 5\<rparr>" 5 ec_success] w
  have "\<exists>m. child (native_ref (?seen\<lparr>pending := Some 5\<rparr>)) = Exited m \<and> 7 = posix_exit_code m"
    by blast
  with c w x n show ?thesis by simp
qed

end
